theory Spec2Isabelle
  imports Main "HOL-Library.AList"
begin

section \<open>The value model\<close>

text \<open>
  The values that documents, event payloads and patches are made of: the JSON values, and
  \<open>undefined\<close>, which no JSON text holds but which a member of an object built by the
  program can be. A JavaScript object is kept as the list of its own members in the order
  \<open>Object.keys\<close> enumerates them; member names are unique in a JavaScript object. A
  number is kept as the text \<open>Number.prototype.toString\<close> gives for it (\<open>1883\<close>,
  \<open>0.5\<close>, \<open>1e+21\<close>; the two zeros both give \<open>0\<close>): two finite numbers are equal
  exactly when these texts are equal, a template literal and \<open>JSON.stringify\<close> both write
  this text, and the number is falsy exactly when the text is \<open>0\<close>. \<open>NaN\<close> and the
  infinities, which no JSON text holds either, are not values of the model. Members
  inherited from \<open>Object.prototype\<close>, \<open>Array.prototype\<close> and \<open>String.prototype\<close> (all
  of them functions) are not part of a value; where the program's behaviour depends on
  one, the definition that reads it says so.
\<close>

datatype json =
    JUndefined
  | JNull
  | JBool bool
  | JNum string
  | JStr string
  | JArr "json list"
  | JObj "(string \<times> json) list"

text \<open>
  One entry of the generated patch: \<open>{ op, path, value }\<close>. (When the patch is written
  as the request body, an entry whose value is \<open>undefined\<close> loses its \<open>value\<close> member.)
\<close>

datatype patch =
    Add string json
  | Replace string json
  | Remove string

subsection \<open>Decimal rendering of an index\<close>

definition digit_char :: "nat \<Rightarrow> char" where
  "digit_char d = ''0123456789'' ! d"

function show_nat :: "nat \<Rightarrow> string" where
  "show_nat n = (if n < 10 then [digit_char n] else show_nat (n div 10) @ [digit_char (n mod 10)])"
  by pat_completeness auto
termination
  by (relation "measure (\<lambda>n. n)") auto

declare show_nat.simps [simp del]

subsection \<open>JavaScript's view of a value\<close>

text \<open>\<open>Array.isArray(v)\<close>.\<close>

fun isArray :: "json \<Rightarrow> bool" where
  "isArray (JArr xs) = True"
| "isArray v = False"

text \<open>\<open>typeof v === "object" && v !== null\<close>: true of arrays and of objects.\<close>

fun isObjectLike :: "json \<Rightarrow> bool" where
  "isObjectLike (JArr xs) = True"
| "isObjectLike (JObj kvs) = True"
| "isObjectLike v = False"

text \<open>The elements of an array (\<open>v[i]\<close>, \<open>v.length\<close>).\<close>

fun elems :: "json \<Rightarrow> json list" where
  "elems (JArr xs) = xs"
| "elems v = []"

text \<open>
  The own enumerable members of an object-like value, in \<open>Object.keys\<close> order: an
  array's are its indices, written in decimal.
\<close>

fun members :: "json \<Rightarrow> (string \<times> json) list" where
  "members (JObj kvs) = kvs"
| "members (JArr xs) = zip (map show_nat [0..<length xs]) xs"
| "members v = []"

definition object_keys :: "json \<Rightarrow> string list" where
  "object_keys v = map fst (members v)"

text \<open>
  The string-named members of \<open>Object.prototype\<close> and of \<open>Array.prototype\<close> (ECMAScript
  2023, with the accessors of its Annex B), apart from \<open>__proto__\<close>. Each of them is a
  function.
\<close>

definition objectPrototypeNames :: "string list" where
  "objectPrototypeNames =
     [''constructor'', ''hasOwnProperty'', ''isPrototypeOf'', ''propertyIsEnumerable'',
      ''toLocaleString'', ''toString'', ''valueOf'', ''__defineGetter__'', ''__defineSetter__'',
      ''__lookupGetter__'', ''__lookupSetter__'']"

definition arrayPrototypeNames :: "string list" where
  "arrayPrototypeNames =
     [''at'', ''concat'', ''copyWithin'', ''entries'', ''every'', ''fill'', ''filter'', ''find'',
      ''findIndex'', ''findLast'', ''findLastIndex'', ''flat'', ''flatMap'', ''forEach'',
      ''includes'', ''indexOf'', ''join'', ''keys'', ''lastIndexOf'', ''map'', ''pop'', ''push'',
      ''reduce'', ''reduceRight'', ''reverse'', ''shift'', ''slice'', ''some'', ''sort'', ''splice'',
      ''toReversed'', ''toSorted'', ''toSpliced'', ''unshift'', ''values'', ''with'']"

text \<open>
  What an object-like \<open>v\<close> answers for a name that is not one of its own enumerable
  members: an array has \<open>length\<close>; \<open>__proto__\<close> is the prototype, an object (for an array,
  an array) without enumerable members; the other inherited names are functions. A function
  is written here as \<open>undefined\<close>: like \<open>undefined\<close> it has no rendering, its \<open>typeof\<close>
  is not \<open>"object"\<close>, and a patch entry that carries it loses its \<open>value\<close> member when
  it is written.
\<close>

definition inherited :: "json \<Rightarrow> string \<Rightarrow> json option" where
  "inherited v key =
     (if isArray v \<and> key = ''length'' then Some (JNum (show_nat (length (elems v))))
      else if key = ''__proto__'' then Some (if isArray v then JArr [] else JObj [])
      else if key \<in> set objectPrototypeNames \<or> (isArray v \<and> key \<in> set arrayPrototypeNames)
        then Some JUndefined
      else None)"

text \<open>
  \<open>v[key]\<close> for an object-like \<open>v\<close>, together with \<open>key in v\<close>: \<open>None\<close> when \<open>v\<close> has
  no such member, own or inherited, and \<open>Some x\<close> when it has the member with the value
  \<open>x\<close> (which may be \<open>undefined\<close>).
\<close>

definition get_member :: "json \<Rightarrow> string \<Rightarrow> json option" where
  "get_member v key =
     (case map_of (members v) key of
        Some x \<Rightarrow> Some x
      | None \<Rightarrow> inherited v key)"

text \<open>
  The iteration order of \<open>new Set([...a, ...b])\<close>: every element once, at its first
  occurrence.
\<close>

definition set_order :: "string list \<Rightarrow> string list" where
  "set_order ks = rev (remdups (rev ks))"

text \<open>\<open>s.split(c)\<close> for a one-character separator.\<close>

fun split_on :: "char \<Rightarrow> string \<Rightarrow> string list" where
  "split_on c [] = [[]]"
| "split_on c (x # xs) =
     (if x = c then [] # split_on c xs
      else (case split_on c xs of w # ws \<Rightarrow> (x # w) # ws | [] \<Rightarrow> [[x]]))"

subsection \<open>\<open>JSON.stringify\<close>\<close>

text \<open>
  \<open>JSON.stringify(v)\<close> is \<open>undefined\<close> for \<open>undefined\<close> and a text otherwise. The text
  leaves out the members of an object whose value is \<open>undefined\<close> and writes \<open>null\<close> for
  an element of an array that is \<open>undefined\<close>; beyond that it writes the value as it is,
  members in their order. So the text is kept as the JSON value it denotes, \<open>jsonOf v\<close>,
  which is also what \<open>JSON.parse\<close> gives back for it: two values have the same rendering
  exactly when \<open>stringify\<close> is the same for both.
\<close>

fun jsonOf :: "json \<Rightarrow> json"
  and jsonOfElems :: "json list \<Rightarrow> json list"
  and jsonOfMembers :: "(string \<times> json) list \<Rightarrow> (string \<times> json) list" where
  "jsonOf JUndefined = JUndefined"
| "jsonOf JNull = JNull"
| "jsonOf (JBool b) = JBool b"
| "jsonOf (JNum r) = JNum r"
| "jsonOf (JStr s) = JStr s"
| "jsonOf (JArr xs) = JArr (jsonOfElems xs)"
| "jsonOf (JObj kvs) = JObj (jsonOfMembers kvs)"
| "jsonOfElems [] = []"
| "jsonOfElems (x # xs) = (if x = JUndefined then JNull else jsonOf x) # jsonOfElems xs"
| "jsonOfMembers [] = []"
| "jsonOfMembers (kv # kvs) =
     (if snd kv = JUndefined then jsonOfMembers kvs else (fst kv, jsonOf (snd kv)) # jsonOfMembers kvs)"

definition stringify :: "json \<Rightarrow> json option" where
  "stringify v = (if v = JUndefined then None else Some (jsonOf v))"

text \<open>
  \<open>JSON.parse(JSON.stringify(v))\<close>: the value the text denotes; for \<open>undefined\<close>,
  \<open>JSON.parse\<close> throws a SyntaxError (\<open>None\<close>).
\<close>

definition deepClone :: "json \<Rightarrow> json option" where
  "deepClone v = stringify v"

section \<open>The diff engine\<close>

text \<open>
  \<open>generateJSONPatch(oldObj, newObj, path)\<close>. The comparison
  \<open>JSON.stringify(a) !== JSON.stringify(b)\<close> of the source is \<open>stringify a \<noteq> stringify b\<close>.
\<close>

lemma size_nth_elems: "i < length (elems v) \<Longrightarrow> size (elems v ! i) < size v"
proof (cases v)
  case (JArr xs)
  assume "i < length (elems v)"
  with JArr have "xs ! i \<in> set xs" by simp
  then have "size (xs ! i) \<le> size_list size xs" by (rule size_list_estimation') simp
  with JArr show ?thesis by simp
qed simp_all

lemma size_map_of_members:
  assumes "map_of (members v) key = Some x"
  shows "size x < size v"
proof (cases v)
  case (JObj kvs)
  with assms have "(key, x) \<in> set kvs" by (auto dest: map_of_SomeD)
  then have "size_prod (\<lambda>_. 0) size (key, x) \<le> size_list (size_prod (\<lambda>_. 0) size) kvs"
    by (rule size_list_estimation') simp
  with JObj show ?thesis by simp
next
  case (JArr xs)
  with assms have "(key, x) \<in> set (zip (map show_nat [0..<length xs]) xs)"
    by (auto dest: map_of_SomeD)
  then have "x \<in> set xs" by (rule set_zip_rightD)
  then have "size x \<le> size_list size xs" by (rule size_list_estimation') simp
  with JArr show ?thesis by simp
qed (use assms in simp_all)

lemma size_get_member_own:
  assumes "key \<in> set (object_keys v)" and "get_member v key = Some x"
  shows "size x < size v"
proof -
  from assms(1) have "key \<in> fst ` set (members v)" by (simp add: object_keys_def)
  then obtain y where y: "map_of (members v) key = Some y"
    by (cases "map_of (members v) key") (simp_all add: map_of_eq_None_iff)
  with assms(2) have "y = x" by (simp add: get_member_def)
  with y show ?thesis by (simp add: size_map_of_members)
qed

lemma size_get_member:
  assumes "isObjectLike v" and "get_member v key = Some x"
  shows "size x \<le> size v"
proof (cases "map_of (members v) key")
  case (Some y)
  with assms(2) have "y = x" by (simp add: get_member_def)
  with Some show ?thesis using size_map_of_members [of v key x] by simp
next
  case None
  with assms(2) have "inherited v key = Some x" by (simp add: get_member_def)
  then have "x = JNum (show_nat (length (elems v))) \<or> x = JArr [] \<or> x = JObj [] \<or> x = JUndefined"
    by (auto simp: inherited_def split: if_splits)
  with assms(1) show ?thesis by (cases v) auto
qed

function generateJSONPatch :: "json \<Rightarrow> json \<Rightarrow> string \<Rightarrow> patch list" where
  "generateJSONPatch oldObj newObj path =
     (if isArray oldObj \<and> isArray newObj then
        concat (map (\<lambda>i.
          if i \<ge> length (elems newObj) then
            [Remove (path @ ''/'' @ show_nat i)]
          else if i \<ge> length (elems oldObj) then
            [Add (path @ ''/'' @ show_nat i) (elems newObj ! i)]
          else if stringify (elems oldObj ! i) \<noteq> stringify (elems newObj ! i) then
            (if isObjectLike (elems oldObj ! i) \<and> isObjectLike (elems newObj ! i) then
               generateJSONPatch (elems oldObj ! i) (elems newObj ! i) (path @ ''/'' @ show_nat i)
             else [Replace (path @ ''/'' @ show_nat i) (elems newObj ! i)])
          else [])
          [0..<max (length (elems oldObj)) (length (elems newObj))])
      else if isObjectLike oldObj \<and> isObjectLike newObj then
        concat (map (\<lambda>key.
          case get_member newObj key of
            None \<Rightarrow> [Remove (if path \<noteq> [] then path @ ''/'' @ key else ''/'' @ key)]
          | Some newValue \<Rightarrow>
             (case get_member oldObj key of
                None \<Rightarrow> [Add (if path \<noteq> [] then path @ ''/'' @ key else ''/'' @ key) newValue]
              | Some oldValue \<Rightarrow>
                  if stringify oldValue \<noteq> stringify newValue then
                    (if isObjectLike oldValue \<and> isObjectLike newValue then
                       generateJSONPatch oldValue newValue
                         (if path \<noteq> [] then path @ ''/'' @ key else ''/'' @ key)
                     else [Replace (if path \<noteq> [] then path @ ''/'' @ key else ''/'' @ key) newValue])
                  else []))
          (set_order (object_keys oldObj @ object_keys newObj)))
      else if oldObj \<noteq> newObj then [Replace (if path \<noteq> [] then path else ''/'') newObj]
      else [])"
  by pat_completeness auto
termination
proof (relation "measure (\<lambda>(oldObj, newObj, path). size oldObj + size newObj)", goal_cases)
  case 1
  show ?case by simp
next
  case (2 oldObj newObj path i)
  then have "size (elems oldObj ! i) < size oldObj" and "size (elems newObj ! i) < size newObj"
    by (simp_all add: size_nth_elems)
  then show ?case by simp
next
  case (3 oldObj newObj path key newValue oldValue)
  then have le: "size oldValue \<le> size oldObj" "size newValue \<le> size newObj"
    by (simp_all add: size_get_member)
  from 3 have "key \<in> set (object_keys oldObj) \<or> key \<in> set (object_keys newObj)"
    by (auto simp: set_order_def)
  then have "size oldValue < size oldObj \<or> size newValue < size newObj"
    using 3 by (auto simp: size_get_member_own)
  with le show ?case by auto
qed

declare generateJSONPatch.simps [simp del]

section \<open>The patch applier\<close>

text \<open>
  Modelled from the spec: the Patch Applier \<open>apply(doc, ops)\<close> runs on the server and is
  not among the sources. The specification asks for standard JSON Patch semantics, so the
  definitions below follow RFC 6902 (operations add, replace, remove) over RFC 6901
  pointers: operations are applied one after the other, each to the result of the one
  before, and the first operation that cannot be applied fails the whole patch (\<open>None\<close>).
\<close>

text \<open>Reference tokens: \<open>~1\<close> stands for \<open>/\<close> and \<open>~0\<close> for \<open>~\<close>.\<close>

fun unescape :: "string \<Rightarrow> string" where
  "unescape (a # b # cs) =
     (if a = CHR ''~'' \<and> b = CHR ''1'' then CHR ''/'' # unescape cs
      else if a = CHR ''~'' \<and> b = CHR ''0'' then CHR ''~'' # unescape cs
      else a # unescape (b # cs))"
| "unescape cs = cs"

text \<open>The empty pointer is the whole document; any other pointer starts with \<open>/\<close>.\<close>

definition parse_pointer :: "string \<Rightarrow> string list option" where
  "parse_pointer p =
     (case p of
        [] \<Rightarrow> Some []
      | c # cs \<Rightarrow> if c = CHR ''/'' then Some (map unescape (split_on CHR ''/'' cs)) else None)"

fun digits_val :: "string \<Rightarrow> nat \<Rightarrow> nat option" where
  "digits_val [] acc = Some acc"
| "digits_val (c # cs) acc =
     (if c \<in> set ''0123456789'' then digits_val cs (10 * acc + (of_char c - 48)) else None)"

text \<open>An array index: decimal digits, without a leading zero unless it is \<open>0\<close>.\<close>

definition parse_index :: "string \<Rightarrow> nat option" where
  "parse_index t =
     (if t = [] \<or> (length t > 1 \<and> hd t = CHR ''0'') then None else digits_val t 0)"

fun child :: "json \<Rightarrow> string \<Rightarrow> json option" where
  "child (JObj kvs) t = map_of kvs t"
| "child (JArr xs) t =
     (case parse_index t of
        None \<Rightarrow> None
      | Some i \<Rightarrow> if i < length xs then Some (xs ! i) else None)"
| "child v t = None"

fun set_child :: "json \<Rightarrow> string \<Rightarrow> json \<Rightarrow> json" where
  "set_child (JObj kvs) t c = JObj (AList.update t c kvs)"
| "set_child (JArr xs) t c = (case parse_index t of None \<Rightarrow> JArr xs | Some i \<Rightarrow> JArr (xs[i := c]))"
| "set_child v t c = v"

fun add_at :: "string list \<Rightarrow> json \<Rightarrow> json \<Rightarrow> json option" where
  "add_at [] v doc = Some v"
| "add_at [t] v (JObj kvs) = Some (JObj (AList.update t v kvs))"
| "add_at [t] v (JArr xs) =
     (if t = ''-'' then Some (JArr (xs @ [v]))
      else (case parse_index t of
              None \<Rightarrow> None
            | Some i \<Rightarrow> if i \<le> length xs then Some (JArr (take i xs @ v # drop i xs)) else None))"
| "add_at (t # ts) v doc =
     (case child doc t of
        None \<Rightarrow> None
      | Some c \<Rightarrow> (case add_at ts v c of None \<Rightarrow> None | Some c' \<Rightarrow> Some (set_child doc t c')))"

fun replace_at :: "string list \<Rightarrow> json \<Rightarrow> json \<Rightarrow> json option" where
  "replace_at [] v doc = Some v"
| "replace_at (t # ts) v doc =
     (case child doc t of
        None \<Rightarrow> None
      | Some c \<Rightarrow> (case replace_at ts v c of None \<Rightarrow> None | Some c' \<Rightarrow> Some (set_child doc t c')))"

fun remove_at :: "string list \<Rightarrow> json \<Rightarrow> json option" where
  "remove_at [] doc = None"
| "remove_at [t] (JObj kvs) = (if t \<in> set (map fst kvs) then Some (JObj (AList.delete t kvs)) else None)"
| "remove_at [t] (JArr xs) =
     (case parse_index t of
        None \<Rightarrow> None
      | Some i \<Rightarrow> if i < length xs then Some (JArr (take i xs @ drop (Suc i) xs)) else None)"
| "remove_at (t # ts) doc =
     (case child doc t of
        None \<Rightarrow> None
      | Some c \<Rightarrow> (case remove_at ts c of None \<Rightarrow> None | Some c' \<Rightarrow> Some (set_child doc t c')))"

fun apply_op :: "patch \<Rightarrow> json \<Rightarrow> json option" where
  "apply_op (Add p v) doc = (case parse_pointer p of None \<Rightarrow> None | Some ts \<Rightarrow> add_at ts v doc)"
| "apply_op (Replace p v) doc = (case parse_pointer p of None \<Rightarrow> None | Some ts \<Rightarrow> replace_at ts v doc)"
| "apply_op (Remove p) doc = (case parse_pointer p of None \<Rightarrow> None | Some ts \<Rightarrow> remove_at ts doc)"

fun apply_patch :: "patch list \<Rightarrow> json \<Rightarrow> json option" where
  "apply_patch [] doc = Some doc"
| "apply_patch (p # ps) doc = (case apply_op p doc of None \<Rightarrow> None | Some doc' \<Rightarrow> apply_patch ps doc')"

section \<open>The application state\<close>

text \<open>
  The component \<open>App\<close> keeps React state (\<open>config\<close>, \<open>isLoading\<close>, the two status
  maps, the system state and its start time) and four refs. The record adds what the
  component acts on in its environment: the toasts shown to the user, the console, the
  event sources that are not closed, the pending window timers with the time they are due,
  the clock, the next handle the browser gives out (handles are positive, hence truthy),
  the number of times an event source has been constructed or its construction attempted,
  the PATCH requests that await their response, each with the request body and the
  \<open>newConfig\<close> its continuation holds, and whether a state updater has thrown. (React
  calls the function passed to a state setter outside the caller's \<open>try\<close>: when it throws,
  the setter still returns, and React throws the error again while it renders.)
  \<open>lastSavedConfigRef\<close> is \<open>None\<close> while the ref holds the \<open>null\<close> it starts with, and
  \<open>Some v\<close> once \<open>v\<close> has been assigned to it; likewise the two other optional refs.
\<close>

datatype BridgeState = Bridge_disabled | Bridge_starting | Bridge_started | Bridge_stopping | Bridge_stopped

datatype BrokerState =
  Broker_disabled | Broker_connecting | Broker_connected | Broker_disconnecting | Broker_disconnected

datatype BridgesSystemState = Bridges_starting | Bridges_started | Bridges_stopping | Bridges_stopped

text \<open>
  The start time set by \<open>bridges_started\<close>, the number
  \<open>data.at ? new Date(data.at).getTime() : Date.now()\<close>, is kept as the payload and the
  clock reading it is computed from.
\<close>

datatype start_time = StartTime json nat

text \<open>\<open>toast.success(message)\<close> and \<open>toast.error(message, { description })\<close>.\<close>

datatype toast = ToastSuccess string | ToastError string "string option"

record app =
  config :: json
  isLoading :: bool
  bridgeStates :: "string \<rightharpoonup> BridgeState"
  brokerStates :: "string \<rightharpoonup> BrokerState"
  bridgesSystemState :: "BridgesSystemState option"
  systemStartTime :: "start_time option"
  lastSavedConfigRef :: "json option"
  latestConfigRef :: json
  eventSourceRef :: "nat option"
  reconnectTimeoutRef :: "nat option"
  toasts :: "toast list"
  console :: "string list"
  openSources :: "nat list"
  timers :: "(nat \<times> nat) list"
  now :: nat
  nextHandle :: nat
  attempts :: nat
  inFlight :: "(patch list \<times> json) list"
  renderError :: bool

subsection \<open>Reading JavaScript values\<close>

text \<open>
  \<open>v.k\<close> for a value other than \<open>null\<close> and \<open>undefined\<close> and for the member names the
  program reads (\<open>name\<close>, \<open>bridge\<close>, \<open>instance\<close>, \<open>bridges\<close>, \<open>brokers\<close>, \<open>network\<close> and
  the like): the own member of an object, and \<open>undefined\<close> where there is none; strings,
  numbers, booleans and arrays have no member of these names, and no object inherits one.
  (The one name the program reads that arrays and strings do inherit, \<open>at\<close>, is dealt
  with where it is read.) \<open>getProp\<close> adds the TypeError (\<open>None\<close>) that reading a member
  of \<open>null\<close> or \<open>undefined\<close> throws.
\<close>

fun propOf :: "json \<Rightarrow> string \<Rightarrow> json" where
  "propOf (JObj kvs) k = (case map_of kvs k of Some x \<Rightarrow> x | None \<Rightarrow> JUndefined)"
| "propOf v k = JUndefined"

definition getProp :: "json \<Rightarrow> string \<Rightarrow> json option" where
  "getProp v k = (if v = JNull \<or> v = JUndefined then None else Some (propOf v k))"

text \<open>Truthiness.\<close>

fun truthy :: "json \<Rightarrow> bool" where
  "truthy JUndefined = False"
| "truthy JNull = False"
| "truthy (JBool b) = b"
| "truthy (JNum r) = (r \<noteq> ''0'')"
| "truthy (JStr s) = (s \<noteq> [])"
| "truthy v = True"

text \<open>
  The string a value becomes in a template literal or as a computed member name, or the
  TypeError (\<open>None\<close>) the conversion throws. An array is joined with commas, \<open>null\<close> and
  \<open>undefined\<close> elements giving the empty string. An object gives \<open>[object Object]\<close>
  through the inherited \<open>toString\<close>; an object with an own member \<open>toString\<close> (whose
  value, like every value here, cannot be called) cannot be converted.
\<close>

fun js_string :: "json \<Rightarrow> string option"
  and js_join :: "json list \<Rightarrow> string option" where
  "js_string JUndefined = Some ''undefined''"
| "js_string JNull = Some ''null''"
| "js_string (JBool b) = Some (if b then ''true'' else ''false'')"
| "js_string (JNum r) = Some r"
| "js_string (JStr s) = Some s"
| "js_string (JArr xs) = js_join xs"
| "js_string (JObj kvs) = (if ''toString'' \<in> set (map fst kvs) then None else Some ''[object Object]'')"
| "js_join [] = Some []"
| "js_join [x] = (if x = JNull \<or> x = JUndefined then Some [] else js_string x)"
| "js_join (x # y # ys) =
     (case (if x = JNull \<or> x = JUndefined then Some [] else js_string x) of
        None \<Rightarrow> None
      | Some a \<Rightarrow> (case js_join (y # ys) of None \<Rightarrow> None | Some b \<Rightarrow> Some (a @ '','' @ b)))"

subsection \<open>The live event channel\<close>

definition events :: "string list" where
  "events =
     [''bridges_starting'', ''bridges_started'', ''bridges_stopping'', ''bridges_stopped'',
      ''bridge_disabled'', ''bridge_starting'', ''bridge_started'', ''bridge_stopping'',
      ''bridge_stopped'', ''broker_disabled'', ''broker_connecting'', ''broker_connected'',
      ''broker_disconnecting'', ''broker_disconnected'']"

text \<open>The result of \<open>JSON.parse(event.data)\<close>: it throws or yields a value.\<close>

datatype parsed = SyntaxError | Parsed json

text \<open>
  \<open>setBridgeStates(prev => ({ ...prev, [data.name]: s }))\<close>: the member name is computed
  when React calls the updater; when that conversion throws, the updater has thrown.
\<close>

definition setBridgeState :: "json \<Rightarrow> BridgeState \<Rightarrow> app \<Rightarrow> app" where
  "setBridgeState name s st =
     (case js_string name of
        Some key \<Rightarrow> st\<lparr>bridgeStates := (bridgeStates st)(key \<mapsto> s)\<rparr>
      | None \<Rightarrow> st\<lparr>renderError := True\<rparr>)"

definition setBrokerState :: "string \<Rightarrow> BrokerState \<Rightarrow> app \<Rightarrow> app" where
  "setBrokerState key s st = st\<lparr>brokerStates := (brokerStates st)(key \<mapsto> s)\<rparr>"

text \<open>The first \<open>if\<close> chain of the listener: bridge states, keyed by \<open>data.name\<close>.\<close>

definition updateBridgeStates :: "string \<Rightarrow> json \<Rightarrow> app \<Rightarrow> app" where
  "updateBridgeStates eventName data st =
     (if eventName = ''bridge_disabled'' \<and> truthy (propOf data ''name'') then
        setBridgeState (propOf data ''name'') Bridge_disabled st
      else if eventName = ''bridge_starting'' \<and> truthy (propOf data ''name'') then
        setBridgeState (propOf data ''name'') Bridge_starting st
      else if eventName = ''bridge_started'' \<and> truthy (propOf data ''name'') then
        setBridgeState (propOf data ''name'') Bridge_started st
      else if eventName = ''bridge_stopping'' \<and> truthy (propOf data ''name'') then
        setBridgeState (propOf data ''name'') Bridge_stopping st
      else if eventName = ''bridge_stopped'' \<and> truthy (propOf data ''name'') then
        setBridgeState (propOf data ''name'') Bridge_stopped st
      else st)"

text \<open>
  \<open>instanceName\<close>: a string that includes \<open>+\<close> is cut down to \<open>split("+").pop()\<close>,
  anything else is used as it is; \<open>brokerKey\<close> is the template
  \<open>${data.bridge}/${instanceName}\<close>, which converts both parts to strings and throws when
  one of them cannot be converted.
\<close>

definition instanceName :: "json \<Rightarrow> string option" where
  "instanceName inst =
     (case inst of
        JStr s \<Rightarrow> Some (if CHR ''+'' \<in> set s then last (split_on CHR ''+'' s) else s)
      | v \<Rightarrow> js_string v)"

definition brokerKey :: "json \<Rightarrow> json \<Rightarrow> string option" where
  "brokerKey bridge inst =
     (case js_string bridge of
        None \<Rightarrow> None
      | Some b \<Rightarrow> (case instanceName inst of None \<Rightarrow> None | Some i \<Rightarrow> Some (b @ ''/'' @ i)))"

text \<open>
  The second part of the listener: broker states, keyed by \<open>brokerKey\<close>. The key is built
  for every event name once \<open>data.bridge\<close> and \<open>data.instance\<close> are truthy; \<open>None\<close> is the
  TypeError of the template.
\<close>

definition updateBrokerStates :: "string \<Rightarrow> json \<Rightarrow> app \<Rightarrow> app option" where
  "updateBrokerStates eventName data st =
     (if truthy (propOf data ''bridge'') \<and> truthy (propOf data ''instance'') then
        (case brokerKey (propOf data ''bridge'') (propOf data ''instance'') of
           None \<Rightarrow> None
         | Some key \<Rightarrow>
             Some (if eventName = ''broker_disabled'' then setBrokerState key Broker_disabled st
                   else if eventName = ''broker_connecting'' then setBrokerState key Broker_connecting st
                   else if eventName = ''broker_connected'' then setBrokerState key Broker_connected st
                   else if eventName = ''broker_disconnecting'' then setBrokerState key Broker_disconnecting st
                   else if eventName = ''broker_disconnected'' then setBrokerState key Broker_disconnected st
                   else st))
      else Some st)"

text \<open>
  \<open>data.at ? new Date(data.at).getTime() : Date.now()\<close>. \<open>new Date(v)\<close> converts an
  object or array \<open>v\<close> to a primitive first, which throws a TypeError (\<open>None\<close>) exactly
  when \<open>v\<close> has no text. (For a payload that is an array or a string, \<open>data.at\<close> is the
  inherited function \<open>at\<close>, which \<open>new Date\<close> converts without throwing: the start time
  is computed from the payload then, too.)
\<close>

definition startTime :: "json \<Rightarrow> nat \<Rightarrow> start_time option" where
  "startTime data clock =
     (if truthy (propOf data ''at'') \<and> js_string (propOf data ''at'') = None then None
      else Some (StartTime data clock))"

text \<open>
  The third part of the listener: the system state and its start time. \<open>Inl\<close> is the
  state in which \<open>new Date\<close> throws, after \<open>setBridgesSystemState("started")\<close>.
\<close>

definition updateSystemState :: "string \<Rightarrow> json \<Rightarrow> app \<Rightarrow> app + app" where
  "updateSystemState eventName data st =
     (if eventName = ''bridges_starting'' then
        Inr (st\<lparr>bridgesSystemState := Some Bridges_starting, systemStartTime := None\<rparr>)
      else if eventName = ''bridges_started'' then
        (case startTime data (now st) of
           None \<Rightarrow> Inl (st\<lparr>bridgesSystemState := Some Bridges_started\<rparr>)
         | Some t \<Rightarrow>
             Inr (st\<lparr>bridgesSystemState := Some Bridges_started, systemStartTime := Some t\<rparr>))
      else if eventName = ''bridges_stopping'' then
        Inr (st\<lparr>bridgesSystemState := Some Bridges_stopping\<rparr>)
      else if eventName = ''bridges_stopped'' then
        Inr (st\<lparr>bridgesSystemState := Some Bridges_stopped, systemStartTime := None\<rparr>)
      else Inr st)"

text \<open>The \<open>catch\<close> block of the listener: \<open>console.error\<close> and \<open>toast.error\<close>.\<close>

definition eventFailed :: "string \<Rightarrow> app \<Rightarrow> app" where
  "eventFailed eventName st =
     st\<lparr>console := console st @ [''Error handling SSE event ['' @ eventName @ '']:''],
        toasts := toasts st @ [ToastError (''Error processing '' @ eventName @ '' event'') None]\<rparr>"

text \<open>
  The listener registered for each name of \<open>events\<close>. Control passes to the \<open>catch\<close>
  block when \<open>JSON.parse\<close> throws; when the payload is \<open>null\<close> (reading \<open>data.name\<close> or
  \<open>data.bridge\<close> then throws a TypeError before any state is set); when the template
  of the broker key throws, which happens after the bridge states have been set and before
  the system state is; and when \<open>new Date\<close> throws.
\<close>

definition eventListener :: "string \<Rightarrow> parsed \<Rightarrow> app \<Rightarrow> app" where
  "eventListener eventName p st =
     (case p of
        SyntaxError \<Rightarrow> eventFailed eventName st
      | Parsed data \<Rightarrow>
          if data = JNull \<or> data = JUndefined then eventFailed eventName st
          else (case updateBrokerStates eventName data (updateBridgeStates eventName data st) of
                  None \<Rightarrow> eventFailed eventName (updateBridgeStates eventName data st)
                | Some st2 \<Rightarrow>
                    (case updateSystemState eventName data st2 of
                       Inl st3 \<Rightarrow> eventFailed eventName st3
                     | Inr st3 \<Rightarrow> st3)))"

text \<open>An event reaches a listener only under one of the registered names.\<close>

definition dispatchEvent :: "string \<Rightarrow> parsed \<Rightarrow> app \<Rightarrow> app" where
  "dispatchEvent eventName p st = (if eventName \<in> set events then eventListener eventName p st else st)"








subsection \<open>The sync client\<close>

text \<open>The defaults of \<open>types/mqtt-bridge.ts\<close> and the initial \<open>config\<close>.\<close>

definition defaultMqtt :: json where
  "defaultMqtt =
     JObj [(''client_id'', JStr []), (''keep_alive'', JNum ''60''), (''clean_session'', JBool True),
           (''will_topic'', JStr []), (''will_message'', JStr []), (''will_qos'', JNum ''0''),
           (''will_retain'', JBool False), (''username'', JStr []), (''password'', JStr []),
           (''loop_prevention'', JBool False)]"

definition defaultTopic :: json where
  "defaultTopic = JObj [(''topic'', JStr ''#''), (''qos'', JNum ''0'')]"

definition defaultNetwork :: json where
  "defaultNetwork =
     JObj [(''instance_name'', JStr []), (''protocol'', JStr ''in''), (''encryption'', JStr ''legacy''),
           (''transport'', JStr ''stream''), (''in'', JObj [(''host'', JStr []), (''port'', JNum ''1883'')])]"

definition defaultBroker :: json where
  "defaultBroker =
     JObj [(''session_store'', JStr []), (''mqtt'', defaultMqtt), (''network'', defaultNetwork),
           (''topics'', JArr [defaultTopic])]"

definition defaultBridge :: json where
  "defaultBridge = JObj [(''name'', JStr []), (''brokers'', JArr [defaultBroker, defaultBroker])]"

definition initialConfig :: json where
  "initialConfig = JObj [(''bridges'', JArr [defaultBridge])]"

text \<open>The state of the component when it mounts.\<close>

definition initial :: app where
  "initial =
     \<lparr>config = initialConfig, isLoading = True, bridgeStates = Map.empty, brokerStates = Map.empty,
      bridgesSystemState = None, systemStartTime = None, lastSavedConfigRef = None,
      latestConfigRef = initialConfig, eventSourceRef = None, reconnectTimeoutRef = None,
      toasts = [], console = [], openSources = [], timers = [], now = 0, nextHandle = 1,
      attempts = 0, inFlight = [], renderError = False\<rparr>"

text \<open>
  \<open>loadConfig\<close> up to its first \<open>await\<close>, and its continuation once \<open>fetch\<close> and
  \<open>response.json()\<close> have settled. The continuation reads the \<open>config\<close> of the render
  that created it, passed here as \<open>cfg\<close>. (In the branch of success \<open>data\<close> is an
  object, so its deep clone does not throw and \<open>deepClone data\<close> is the new reference.)
\<close>

datatype load_result =
    LoadRejected string
  | LoadNotOk string
  | LoadBody json

definition loadConfig :: "app \<Rightarrow> app" where
  "loadConfig st = st\<lparr>isLoading := True\<rparr>"

text \<open>
  The \<open>catch\<close> and \<open>finally\<close> blocks of \<open>loadConfig\<close>: the toast, the two assignments
  (which are not reached when the deep clone throws, that is, when \<open>cfg\<close> is
  \<open>undefined\<close>), and the end of loading.
\<close>

definition loadFailed :: "json \<Rightarrow> string \<Rightarrow> app \<Rightarrow> app" where
  "loadFailed cfg message st =
     (case deepClone cfg of
        None \<Rightarrow>
          st\<lparr>toasts := toasts st @ [ToastError ''Failed to load configuration'' (Some message)],
             isLoading := False\<rparr>
      | Some copy \<Rightarrow>
          st\<lparr>toasts := toasts st @ [ToastError ''Failed to load configuration'' (Some message)],
             lastSavedConfigRef := Some copy,
             latestConfigRef := cfg,
             isLoading := False\<rparr>)"

text \<open>\<open>data === null || typeof data !== 'object' || !Array.isArray(data.bridges)\<close>.\<close>

definition invalidFormat :: "json \<Rightarrow> bool" where
  "invalidFormat data =
     (if data = JNull then True
      else if isObjectLike data then (if isArray (propOf data ''bridges'') then False else True)
      else True)"

definition loadConfig_resume :: "json \<Rightarrow> load_result \<Rightarrow> app \<Rightarrow> app" where
  "loadConfig_resume cfg r st =
     (case r of
        LoadRejected message \<Rightarrow> loadFailed cfg message st
      | LoadNotOk statusText \<Rightarrow> loadFailed cfg (''Failed to load configuration: '' @ statusText) st
      | LoadBody data \<Rightarrow>
          if invalidFormat data then
            loadFailed cfg ''Invalid configuration format received from server'' st
          else
            st\<lparr>config := data,
               lastSavedConfigRef := deepClone data,
               latestConfigRef := data,
               toasts := toasts st @ [ToastSuccess ''Configuration loaded successfully''],
               isLoading := False\<rparr>)"

text \<open>
  \<open>cleanConfig\<close>, on any value: \<open>None\<close> is the TypeError the source throws when it reads
  a member of \<open>null\<close> or \<open>undefined\<close> or calls \<open>map\<close> on what is not an array. A member the
  source reads and the document lacks is \<open>undefined\<close> in the cleaned object.
\<close>

definition memberIfTruthy :: "json \<Rightarrow> string \<Rightarrow> (string \<times> json) list" where
  "memberIfTruthy obj k = (if truthy (propOf obj k) then [(k, propOf obj k)] else [])"

definition addressMember :: "json \<Rightarrow> (string \<times> json) list" where
  "addressMember network =
     (if propOf network ''protocol'' = JStr ''in'' then memberIfTruthy network ''in''
      else if propOf network ''protocol'' = JStr ''in6'' then memberIfTruthy network ''in6''
      else if propOf network ''protocol'' = JStr ''rc'' then memberIfTruthy network ''rc''
      else if propOf network ''protocol'' = JStr ''l2'' then memberIfTruthy network ''l2''
      else if propOf network ''protocol'' = JStr ''un'' then memberIfTruthy network ''un''
      else [])"

definition cleanBroker :: "json \<Rightarrow> json option" where
  "cleanBroker broker =
     (case getProp broker ''network'' of
        None \<Rightarrow> None
      | Some network \<Rightarrow>
          if network = JNull \<or> network = JUndefined then None
          else Some (JObj
            ([(''network'',
                 JObj ([(''instance_name'', propOf network ''instance_name''),
                        (''protocol'', propOf network ''protocol''),
                        (''encryption'', propOf network ''encryption''),
                        (''transport'', propOf network ''transport'')]
                       @ addressMember network)),
              (''mqtt'', if truthy (propOf broker ''mqtt'') then propOf broker ''mqtt'' else JObj []),
              (''topics'', propOf broker ''topics'')]
             @ memberIfTruthy broker ''disabled''
             @ memberIfTruthy broker ''session_store''
             @ memberIfTruthy broker ''prefix'')))"

text \<open>\<open>xs.map(f)\<close> where \<open>f\<close> may throw; on what is not an array the call itself throws.\<close>

fun mapThrowing :: "(json \<Rightarrow> json option) \<Rightarrow> json list \<Rightarrow> json list option" where
  "mapThrowing f [] = Some []"
| "mapThrowing f (x # xs) =
     (case f x of
        None \<Rightarrow> None
      | Some y \<Rightarrow> (case mapThrowing f xs of None \<Rightarrow> None | Some ys \<Rightarrow> Some (y # ys)))"

definition cleanBridge :: "json \<Rightarrow> json option" where
  "cleanBridge bridge =
     (case getProp bridge ''brokers'' of
        None \<Rightarrow> None
      | Some brokers \<Rightarrow>
          if isArray brokers then
            (case mapThrowing cleanBroker (elems brokers) of
               None \<Rightarrow> None
             | Some cleanBrokers \<Rightarrow>
                 Some (JObj
                   ([(''name'', propOf bridge ''name''), (''brokers'', JArr cleanBrokers)]
                    @ memberIfTruthy bridge ''disabled''
                    @ memberIfTruthy bridge ''prefix'')))
          else None)"

definition cleanConfig :: "json \<Rightarrow> json option" where
  "cleanConfig cfg =
     (case getProp cfg ''bridges'' of
        None \<Rightarrow> None
      | Some bridges \<Rightarrow>
          if isArray bridges then
            (case mapThrowing cleanBridge (elems bridges) of
               None \<Rightarrow> None
             | Some cleanBridges \<Rightarrow> Some (JObj [(''bridges'', JArr cleanBridges)]))
          else None)"

text \<open>
  \<open>sendPatchToServer\<close> up to its \<open>await fetch(...)\<close>: \<open>patchFor\<close> is the patch the request
  carries, or \<open>None\<close> when the function ends before it sends anything (the reference
  config is \<open>null\<close> or another falsy value, \<open>cleanConfig\<close> throws, or there is no
  change). A request that is sent joins the requests in flight.
\<close>

definition patchFor :: "json option \<Rightarrow> json \<Rightarrow> patch list option" where
  "patchFor lastSaved newConfig =
     (case lastSaved of
        None \<Rightarrow> None
      | Some old \<Rightarrow>
          if \<not> truthy old then None
          else
            (case cleanConfig old of
               None \<Rightarrow> None
             | Some cleanedOld \<Rightarrow>
                 (case cleanConfig newConfig of
                    None \<Rightarrow> None
                  | Some cleanedNew \<Rightarrow>
                      if generateJSONPatch cleanedOld cleanedNew [] = [] then None
                      else Some (generateJSONPatch cleanedOld cleanedNew []))))"

definition sendPatchToServer :: "json \<Rightarrow> app \<Rightarrow> app" where
  "sendPatchToServer newConfig st =
     (case patchFor (lastSavedConfigRef st) newConfig of
        None \<Rightarrow> st
      | Some body \<Rightarrow> st\<lparr>inFlight := inFlight st @ [(body, newConfig)]\<rparr>)"





text \<open>\<open>handleSaveToServer\<close>, the \<open>onSave\<close> of the forms.\<close>

definition handleSaveToServer :: "app \<Rightarrow> app" where
  "handleSaveToServer st = sendPatchToServer (latestConfigRef st) st"

subsection \<open>Runs of the component\<close>


subsection \<open>Names used in the statements\<close>

text \<open>The event names of the three parts of the listener, as the source spells them.\<close>

definition bridgeEventNames :: "string list" where
  "bridgeEventNames =
     [''bridge_disabled'', ''bridge_starting'', ''bridge_started'', ''bridge_stopping'', ''bridge_stopped'']"

definition brokerEventNames :: "string list" where
  "brokerEventNames =
     [''broker_disabled'', ''broker_connecting'', ''broker_connected'', ''broker_disconnecting'',
      ''broker_disconnected'']"

definition systemEventNames :: "string list" where
  "systemEventNames = [''bridges_starting'', ''bridges_started'', ''bridges_stopping'', ''bridges_stopped'']"

text \<open>The broker events with the state each of them writes.\<close>

definition brokerEvents :: "(string \<times> BrokerState) list" where
  "brokerEvents =
     [(''broker_disabled'', Broker_disabled), (''broker_connecting'', Broker_connecting),
      (''broker_connected'', Broker_connected), (''broker_disconnecting'', Broker_disconnecting),
      (''broker_disconnected'', Broker_disconnected)]"



text \<open>
  Deep equality of values in which the order of an object's members does not count.
\<close>

inductive deep_equal :: "json \<Rightarrow> json \<Rightarrow> bool" where
  scalar: "\<not> isObjectLike a \<Longrightarrow> deep_equal a a"
| arr: "list_all2 deep_equal xs ys \<Longrightarrow> deep_equal (JArr xs) (JArr ys)"
| obj: "set (map fst kvs) = set (map fst lvs)
         \<Longrightarrow> (\<And>k v w. map_of kvs k = Some v \<Longrightarrow> map_of lvs k = Some w \<Longrightarrow> deep_equal v w)
         \<Longrightarrow> deep_equal (JObj kvs) (JObj lvs)"

text \<open>
  Sample documents: a configuration with the given bridges, a bridge without brokers and
  with an empty prefix, the form \<open>cleanConfig\<close> gives that bridge, a bridge whose one broker
  lacks \<open>encryption\<close>, \<open>mqtt\<close> and \<open>session_store\<close>, and the states after the empty
  configuration and after a configuration with such a bridge have been loaded.
\<close>

definition configOf :: "json list \<Rightarrow> json" where
  "configOf bridges = JObj [(''bridges'', JArr bridges)]"

definition emptyConfig :: json where
  "emptyConfig = JObj [(''bridges'', JArr [])]"

definition bridgeNamed :: "string \<Rightarrow> json" where
  "bridgeNamed n = JObj [(''name'', JStr n), (''brokers'', JArr []), (''prefix'', JStr [])]"

definition cleanBridgeNamed :: "string \<Rightarrow> json" where
  "cleanBridgeNamed n = JObj [(''name'', JStr n), (''brokers'', JArr [])]"

definition sparseBridge :: "string \<Rightarrow> json" where
  "sparseBridge n =
     JObj [(''name'', JStr n),
           (''brokers'',
            JArr [JObj [(''network'',
                         JObj [(''instance_name'', JStr ''i1''), (''protocol'', JStr ''un''),
                               (''transport'', JStr ''stream''),
                               (''un'', JObj [(''path'', JStr ''/run/mqtt'')])]),
                        (''topics'', JArr [])]])]"

definition loadedEmpty :: app where
  "loadedEmpty = loadConfig_resume initialConfig (LoadBody emptyConfig) (loadConfig initial)"

definition loadedSparse :: app where
  "loadedSparse =
     loadConfig_resume initialConfig (LoadBody (configOf [sparseBridge ''a''])) (loadConfig initial)"

section \<open>Properties of the diff engine\<close>

lemma concat_map_Nil: "(\<And>x. x \<in> set xs \<Longrightarrow> f x = []) \<Longrightarrow> concat (map f xs) = []"
  by (induction xs) auto

lemma object_keys_get_member:
  assumes "key \<in> set (object_keys v)"
  shows "\<exists>x. get_member v key = Some x"
proof -
  from assms have "key \<in> fst ` set (members v)" by (simp add: object_keys_def)
  then have "map_of (members v) key \<noteq> None" by (simp add: map_of_eq_None_iff)
  then show ?thesis by (auto simp: get_member_def)
qed

lemma generateJSONPatch_refl: "generateJSONPatch D D path = []"
proof (cases "isArray D")
  case True
  show ?thesis
    apply (subst generateJSONPatch.simps)
    apply (simp only: True simp_thms if_True)
    apply (rule concat_map_Nil)
    apply simp
    done
next
  case notArr: False
  show ?thesis
  proof (cases "isObjectLike D")
    case True
    show ?thesis
      apply (subst generateJSONPatch.simps)
      apply (simp only: True notArr simp_thms if_True if_False)
      apply (rule concat_map_Nil)
      apply (auto simp: set_order_def dest!: object_keys_get_member)
      done
  next
    case False
    show ?thesis
      apply (subst generateJSONPatch.simps)
      apply (simp only: False notArr simp_thms if_True if_False)
      done
  qed
qed

text \<open>
  C8. For every value \<open>D\<close> and every path, the diff of \<open>D\<close> against itself is the
  empty list of operations.
\<close>

theorem generateJSONPatch_same: "generateJSONPatch D D path = []"
  by (rule generateJSONPatch_refl)

text \<open>
  The diff is also empty for two values that differ in the order of their members only:
  where the renderings differ, both sides are object-like and the diff descends.
\<close>

lemma deep_equal_composite:
  "deep_equal a b \<Longrightarrow> a \<noteq> b \<Longrightarrow> isObjectLike a \<and> isObjectLike b"
  by (induction rule: deep_equal.induct) auto

lemma deep_equal_stringify:
  "deep_equal a b \<Longrightarrow> stringify a \<noteq> stringify b \<Longrightarrow> isObjectLike a \<and> isObjectLike b"
  using deep_equal_composite [of a b] by auto

lemma generateJSONPatch_deep_equal:
  "deep_equal a b \<Longrightarrow> generateJSONPatch a b path = []"
proof (induction arbitrary: path rule: deep_equal.induct)
  case (scalar a)
  show ?case by (rule generateJSONPatch_refl)
next
  case (arr xs ys)
  then have len: "length xs = length ys"
    and el: "\<And>i. i < length xs \<Longrightarrow> deep_equal (xs ! i) (ys ! i)"
    and ih: "\<And>i p. i < length xs \<Longrightarrow> generateJSONPatch (xs ! i) (ys ! i) p = []"
    by (auto simp: list_all2_conv_all_nth)
  show ?case
    apply (subst generateJSONPatch.simps)
    apply (simp only: isArray.simps simp_thms if_True)
    apply (rule concat_map_Nil)
    subgoal for i
    proof -
      assume "i \<in> set [0..<max (length (elems (JArr xs))) (length (elems (JArr ys)))]"
      then have i: "i < length xs" "i < length ys" using len by simp_all
      show ?thesis
        using deep_equal_stringify [OF el [OF i(1)]] ih [OF i(1)] i by auto
    qed
    done
next
  case (obj kvs lvs)
  show ?case
    apply (subst generateJSONPatch.simps)
    apply (simp only: isArray.simps isObjectLike.simps simp_thms if_True if_False)
    apply (rule concat_map_Nil)
    subgoal for key
    proof -
      assume "key \<in> set (set_order (object_keys (JObj kvs) @ object_keys (JObj lvs)))"
      then have k: "key \<in> set (map fst kvs)" "key \<in> set (map fst lvs)"
        using obj(1) by (auto simp: set_order_def object_keys_def)
      then obtain v w where v: "map_of kvs key = Some v" and w: "map_of lvs key = Some w"
        by (metis map_of_eq_None_iff not_Some_eq set_map)
      have gv: "get_member (JObj kvs) key = Some v" and gw: "get_member (JObj lvs) key = Some w"
        using v w by (simp_all add: get_member_def)
      have de: "deep_equal v w" and ih: "\<And>p. generateJSONPatch v w p = []"
        using obj(2,3) [OF v w] by auto
      show ?thesis
        using deep_equal_stringify [OF de] ih by (simp add: gv gw)
    qed
    done
qed

lemma reordered_members_no_patch:
  "generateJSONPatch
     (JObj [(''name'', JStr ''a''), (''brokers'', JArr [])])
     (JObj [(''brokers'', JArr []), (''name'', JStr ''a'')]) path = []"
proof (rule generateJSONPatch_deep_equal)
  have "deep_equal (JStr ''a'') (JStr ''a'')" by (rule deep_equal.scalar) simp
  moreover have "deep_equal (JArr []) (JArr [])" by (rule deep_equal.arr) simp
  ultimately show "deep_equal (JObj [(''name'', JStr ''a''), (''brokers'', JArr [])])
     (JObj [(''brokers'', JArr []), (''name'', JStr ''a'')])"
    by (intro deep_equal.obj) (auto split: if_splits)
qed

text \<open>
  A pair of unequal values of which at least one is not object-like (a scalar, \<open>null\<close>
  or \<open>undefined\<close>) yields one replace operation carrying the new value; its path is the
  given path, and \<open>/\<close> when the given path is empty.
\<close>

lemma generateJSONPatch_scalar_mismatch:
  assumes "\<not> (isObjectLike oldV \<and> isObjectLike newV)" and "oldV \<noteq> newV"
  shows "generateJSONPatch oldV newV path = [Replace (if path \<noteq> [] then path else ''/'') newV]"
proof -
  have "\<not> (isArray oldV \<and> isArray newV)"
    using assms(1) by (cases oldV; cases newV) simp_all
  with assms show ?thesis
    by (subst generateJSONPatch.simps) (simp only: if_False if_True simp_thms)
qed

text \<open>
  A member that is \<open>undefined\<close> on one side and absent on the other is a change for the
  diff (\<open>in\<close> tells them apart), although the two objects have the same rendering.
\<close>

lemma undefined_member_is_a_change:
  "generateJSONPatch (JObj [(''encryption'', JUndefined)]) (JObj []) ''/n'' = [Remove ''/n/encryption'']
   \<and> generateJSONPatch (JObj []) (JObj [(''encryption'', JUndefined)]) ''/n''
       = [Add ''/n/encryption'' JUndefined]
   \<and> generateJSONPatch (JObj [(''encryption'', JUndefined)]) (JObj [(''encryption'', JNull)]) ''/n''
       = [Replace ''/n/encryption'' JNull]
   \<and> stringify (JObj [(''encryption'', JUndefined)]) = stringify (JObj [])"
  by code_simp

text \<open>
  A member named like an inherited one is present on both sides for \<open>in\<close>: where it is
  an own member of one side only, the diff emits a replace operation (carrying the
  inherited function when the member is gone from the new side). An array's \<open>length\<close>
  against an object's member \<open>length\<close> of the same value is no change.
\<close>

lemma inherited_member_is_replaced:
  "generateJSONPatch (JObj []) (JObj [(''toString'', JNum ''1'')]) ''/m''
     = [Replace ''/m/toString'' (JNum ''1'')]
   \<and> generateJSONPatch (JObj [(''constructor'', JNum ''1'')]) (JObj []) ''/m''
     = [Replace ''/m/constructor'' JUndefined]
   \<and> generateJSONPatch (JObj [(''length'', JNum ''1'')]) (JArr [JNull]) ''/m''
     = [Add ''/m/0'' JNull]"
  by code_simp

text \<open>
  C7. A sequence against a mapping is a type-mismatched pair, yet the diff does not emit
  one replace operation at the path: both operands pass the \<open>typeof ... === "object"\<close>
  test of the object branch, which walks the array's indices and the object's keys and
  emits one operation per member.
\<close>

theorem generateJSONPatch_array_vs_object:
  "generateJSONPatch (JArr [JNum ''1'']) (JObj [(''a'', JNum ''1'')]) ''/x''
     = [Remove ''/x/0'', Add ''/x/a'' (JNum ''1'')]
   \<and> generateJSONPatch (JArr [JNum ''1'']) (JObj [(''a'', JNum ''1'')]) ''/x''
     \<noteq> [Replace ''/x'' (JObj [(''a'', JNum ''1'')])]
   \<and> generateJSONPatch (JObj [(''x'', JArr [JNum ''1''])]) (JObj [(''x'', JObj [(''a'', JNum ''1'')])]) []
     = [Remove ''/x/0'', Add ''/x/a'' (JNum ''1'')]"
  by code_simp

text \<open>The member-wise patch cannot be applied to the old document either.\<close>

lemma array_vs_object_patch_not_applicable:
  "apply_patch [Remove ''/x/0'', Add ''/x/a'' (JNum ''1'')] (JObj [(''x'', JArr [JNum ''1''])]) = None"
  by code_simp

text \<open>
  C1. Shrinking the tail of a sequence by two elements (the configuration loses its last
  two bridges): the diff removes the trailing indices in ascending order, so the second
  removal addresses an index that the first removal has already shifted out of range, and
  the patch cannot be applied to the old document.
\<close>

theorem generateJSONPatch_tail_shrink_roundtrip_fails:
  "generateJSONPatch
       (configOf [cleanBridgeNamed ''a'', cleanBridgeNamed ''b'', cleanBridgeNamed ''c''])
       (configOf [cleanBridgeNamed ''a'']) []
     = [Remove ''/bridges/1'', Remove ''/bridges/2'']
   \<and> apply_op (Remove ''/bridges/1'')
        (configOf [cleanBridgeNamed ''a'', cleanBridgeNamed ''b'', cleanBridgeNamed ''c''])
     = Some (configOf [cleanBridgeNamed ''a'', cleanBridgeNamed ''c''])
   \<and> apply_op (Remove ''/bridges/2'') (configOf [cleanBridgeNamed ''a'', cleanBridgeNamed ''c'']) = None
   \<and> apply_patch
        (generateJSONPatch
           (configOf [cleanBridgeNamed ''a'', cleanBridgeNamed ''b'', cleanBridgeNamed ''c''])
           (configOf [cleanBridgeNamed ''a'']) [])
        (configOf [cleanBridgeNamed ''a'', cleanBridgeNamed ''b'', cleanBridgeNamed ''c''])
     = None
   \<and> patchFor (Some (configOf [bridgeNamed ''a'', bridgeNamed ''b'', bridgeNamed ''c'']))
        (configOf [bridgeNamed ''a''])
     = Some [Remove ''/bridges/1'', Remove ''/bridges/2'']"
  by code_simp

text \<open>
  Growing the tail, and shrinking it by one element, do give patches that turn the old
  document into the new one.
\<close>

lemma tail_growth_and_single_removal_round_trip:
  "apply_patch
      (generateJSONPatch (configOf [cleanBridgeNamed ''a''])
         (configOf [cleanBridgeNamed ''a'', cleanBridgeNamed ''b'', cleanBridgeNamed ''c'']) [])
      (configOf [cleanBridgeNamed ''a''])
     = Some (configOf [cleanBridgeNamed ''a'', cleanBridgeNamed ''b'', cleanBridgeNamed ''c''])
   \<and> apply_patch
      (generateJSONPatch (configOf [cleanBridgeNamed ''a'', cleanBridgeNamed ''b''])
         (configOf [cleanBridgeNamed ''a'']) [])
      (configOf [cleanBridgeNamed ''a'', cleanBridgeNamed ''b''])
     = Some (configOf [cleanBridgeNamed ''a''])"
  by code_simp

section \<open>Properties of the rendering\<close>




section \<open>Properties of the event listener\<close>

lemma split_on_not_Nil: "split_on c s \<noteq> []"
  by (induction s) (auto split: list.splits)

lemma split_on_append: "split_on c (xs @ c # ys) = split_on c xs @ split_on c ys"
proof (induction xs)
  case Nil
  show ?case by simp
next
  case (Cons x xs)
  obtain w ws where "split_on c xs = w # ws"
    using split_on_not_Nil [of c xs] by (cases "split_on c xs") auto
  with Cons show ?case by simp
qed

lemma split_on_absent: "c \<notin> set s \<Longrightarrow> split_on c s = [s]"
  by (induction s) auto

lemma last_split_on: "c \<notin> set seg \<Longrightarrow> last (split_on c (pre @ c # seg)) = seg"
  by (simp add: split_on_append split_on_absent)

lemma updateBridgeStates_falsy:
  "\<not> truthy (propOf data ''name'') \<Longrightarrow> updateBridgeStates eventName data st = st"
  by (simp add: updateBridgeStates_def)

lemma updateBridgeStates_other:
  "eventName \<notin> set bridgeEventNames \<Longrightarrow> updateBridgeStates eventName data st = st"
  by (simp add: updateBridgeStates_def bridgeEventNames_def)

lemma updateBrokerStates_falsy:
  "\<not> (truthy (propOf data ''bridge'') \<and> truthy (propOf data ''instance''))
     \<Longrightarrow> updateBrokerStates eventName data st = Some st"
  by (auto simp add: updateBrokerStates_def)

lemma updateBrokerStates_other:
  assumes "eventName \<notin> set brokerEventNames"
  shows "updateBrokerStates eventName data st =
           (if truthy (propOf data ''bridge'') \<and> truthy (propOf data ''instance'')
               \<and> brokerKey (propOf data ''bridge'') (propOf data ''instance'') = None
            then None else Some st)"
  using assms by (simp add: updateBrokerStates_def brokerEventNames_def split: option.splits)

lemma updateSystemState_other:
  "eventName \<notin> set systemEventNames \<Longrightarrow> updateSystemState eventName data st = Inr st"
  by (simp add: updateSystemState_def systemEventNames_def)

lemma bridge_not_broker: "eventName \<in> set bridgeEventNames \<Longrightarrow> eventName \<notin> set brokerEventNames"
  by (auto simp: bridgeEventNames_def brokerEventNames_def)

lemma bridge_not_system: "eventName \<in> set bridgeEventNames \<Longrightarrow> eventName \<notin> set systemEventNames"
  by (auto simp: bridgeEventNames_def systemEventNames_def)

lemma broker_not_bridge: "eventName \<in> set brokerEventNames \<Longrightarrow> eventName \<notin> set bridgeEventNames"
  by (auto simp: bridgeEventNames_def brokerEventNames_def)

lemma broker_not_system: "eventName \<in> set brokerEventNames \<Longrightarrow> eventName \<notin> set systemEventNames"
  by (auto simp: brokerEventNames_def systemEventNames_def)

lemma bridge_in_events: "eventName \<in> set bridgeEventNames \<Longrightarrow> eventName \<in> set events"
  by (auto simp: bridgeEventNames_def events_def)

lemma broker_in_events: "eventName \<in> set brokerEventNames \<Longrightarrow> eventName \<in> set events"
  by (auto simp: brokerEventNames_def events_def)

lemma brokerEvents_names: "(eventName, s) \<in> set brokerEvents \<Longrightarrow> eventName \<in> set brokerEventNames"
  by (auto simp: brokerEvents_def brokerEventNames_def)

lemma truthy_propOf_defined: "truthy (propOf data k) \<Longrightarrow> data \<noteq> JNull \<and> data \<noteq> JUndefined"
  by (cases data) auto

text \<open>
  A broker event whose payload names a bridge and an instance writes one entry, unless
  the key cannot be built.
\<close>

lemma updateBrokerStates_writes:
  assumes "(eventName, s) \<in> set brokerEvents"
    and "truthy (propOf data ''bridge'')" and "truthy (propOf data ''instance'')"
  shows "updateBrokerStates eventName data st =
           (case brokerKey (propOf data ''bridge'') (propOf data ''instance'') of
              None \<Rightarrow> None
            | Some key \<Rightarrow> Some (st\<lparr>brokerStates := (brokerStates st)(key \<mapsto> s)\<rparr>))"
  using assms
  by (auto simp: brokerEvents_def updateBrokerStates_def setBrokerState_def split: option.splits)

lemma dispatchEvent_broker:
  assumes ev: "(eventName, s) \<in> set brokerEvents"
    and b: "truthy (propOf data ''bridge'')"
    and i: "truthy (propOf data ''instance'')"
  shows "dispatchEvent eventName (Parsed data) st =
           (case brokerKey (propOf data ''bridge'') (propOf data ''instance'') of
              None \<Rightarrow> eventFailed eventName st
            | Some key \<Rightarrow> st\<lparr>brokerStates := (brokerStates st)(key \<mapsto> s)\<rparr>)"
proof -
  from ev have n: "eventName \<in> set brokerEventNames" by (rule brokerEvents_names)
  from b have nn: "data \<noteq> JNull \<and> data \<noteq> JUndefined" by (rule truthy_propOf_defined)
  show ?thesis
    using nn
    by (simp add: dispatchEvent_def eventListener_def broker_in_events [OF n]
        updateBridgeStates_other [OF broker_not_bridge [OF n]]
        updateSystemState_other [OF broker_not_system [OF n]]
        updateBrokerStates_writes [OF ev b i] split: option.splits)
qed

text \<open>
  C9. The event \<open>broker_connected\<close> with the payload \<open>{bridge: "b1", instance: "i1"}\<close>
  sets the entry \<open>b1/i1\<close> of the broker status map to \<open>connected\<close> and changes nothing
  else: in particular no entry of the bridge status map.
\<close>

theorem broker_connected_b1_i1:
  "dispatchEvent ''broker_connected''
       (Parsed (JObj [(''bridge'', JStr ''b1''), (''instance'', JStr ''i1'')])) st
     = st\<lparr>brokerStates := (brokerStates st)(''b1/i1'' \<mapsto> Broker_connected)\<rparr>
   \<and> brokerStates (dispatchEvent ''broker_connected''
       (Parsed (JObj [(''bridge'', JStr ''b1''), (''instance'', JStr ''i1'')])) st) ''b1/i1''
     = Some Broker_connected
   \<and> bridgeStates (dispatchEvent ''broker_connected''
       (Parsed (JObj [(''bridge'', JStr ''b1''), (''instance'', JStr ''i1'')])) st)
     = bridgeStates st"
proof -
  have "dispatchEvent ''broker_connected''
       (Parsed (JObj [(''bridge'', JStr ''b1''), (''instance'', JStr ''i1'')])) st
     = (case brokerKey (propOf (JObj [(''bridge'', JStr ''b1''), (''instance'', JStr ''i1'')]) ''bridge'')
               (propOf (JObj [(''bridge'', JStr ''b1''), (''instance'', JStr ''i1'')]) ''instance'') of
          None \<Rightarrow> eventFailed ''broker_connected'' st
        | Some key \<Rightarrow> st\<lparr>brokerStates := (brokerStates st)(key \<mapsto> Broker_connected)\<rparr>)"
    by (rule dispatchEvent_broker) (simp_all add: brokerEvents_def)
  then show ?thesis by (simp add: brokerKey_def instanceName_def)
qed

text \<open>
  C10. For a broker event whose payload carries a truthy bridge and an instance string
  that is not empty, let \<open>seg\<close> be the part of the instance after its last \<open>+\<close> (the
  instance is \<open>pre + seg\<close> with no \<open>+\<close> in \<open>seg\<close>), or the whole instance when it holds
  no \<open>+\<close>. The event writes exactly one entry, under the key made of the text of the
  bridge, a slash and \<open>seg\<close>; the text of the bridge is the bridge itself when it is a string,
  its digits when it is a number (\<open>1e+21\<close> for that number), \<open>true\<close> for \<open>true\<close>, and
  \<open>[object Object]\<close> for an object without a member \<open>toString\<close>. When the bridge has no
  text (an object with a member \<open>toString\<close>, also as an element of an array), no entry is
  written and the event is logged and reported as failed.
\<close>

theorem brokerKey_last_plus_segment:
  assumes "(eventName, s) \<in> set brokerEvents"
    and "truthy (propOf data ''bridge'')"
    and "propOf data ''instance'' = JStr i" and "i \<noteq> []"
    and "(i = pre @ CHR ''+'' # seg \<and> CHR ''+'' \<notin> set seg) \<or> (CHR ''+'' \<notin> set i \<and> seg = i)"
  shows "dispatchEvent eventName (Parsed data) st =
           (case js_string (propOf data ''bridge'') of
              Some b \<Rightarrow> st\<lparr>brokerStates := (brokerStates st)(b @ ''/'' @ seg \<mapsto> s)\<rparr>
            | None \<Rightarrow>
                st\<lparr>console := console st @ [''Error handling SSE event ['' @ eventName @ '']:''],
                   toasts := toasts st @ [ToastError (''Error processing '' @ eventName @ '' event'') None]\<rparr>)
       \<and> (\<forall>b. propOf data ''bridge'' = JStr b \<longrightarrow>
            dispatchEvent eventName (Parsed data) st =
              st\<lparr>brokerStates := (brokerStates st)(b @ ''/'' @ seg \<mapsto> s)\<rparr>)
       \<and> (\<forall>r. propOf data ''bridge'' = JNum r \<longrightarrow>
            dispatchEvent eventName (Parsed data) st =
              st\<lparr>brokerStates := (brokerStates st)(r @ ''/'' @ seg \<mapsto> s)\<rparr>)
       \<and> (propOf data ''bridge'' = JBool True \<longrightarrow>
            dispatchEvent eventName (Parsed data) st =
              st\<lparr>brokerStates := (brokerStates st)(''true/'' @ seg \<mapsto> s)\<rparr>)
       \<and> (\<forall>kvs. propOf data ''bridge'' = JObj kvs \<and> ''toString'' \<notin> fst ` set kvs \<longrightarrow>
            dispatchEvent eventName (Parsed data) st =
              st\<lparr>brokerStates := (brokerStates st)(''[object Object]/'' @ seg \<mapsto> s)\<rparr>)
       \<and> (\<forall>kvs. propOf data ''bridge'' = JObj kvs \<and> ''toString'' \<in> fst ` set kvs \<longrightarrow>
            dispatchEvent eventName (Parsed data) st =
              st\<lparr>console := console st @ [''Error handling SSE event ['' @ eventName @ '']:''],
                 toasts := toasts st @ [ToastError (''Error processing '' @ eventName @ '' event'') None]\<rparr>)"
proof -
  have inst: "instanceName (JStr i) = Some seg"
    using assms(5) by (auto simp: instanceName_def last_split_on)
  have "truthy (propOf data ''instance'')"
    using assms(3,4) by simp
  then have d: "dispatchEvent eventName (Parsed data) st =
           (case brokerKey (propOf data ''bridge'') (JStr i) of
              None \<Rightarrow> eventFailed eventName st
            | Some key \<Rightarrow> st\<lparr>brokerStates := (brokerStates st)(key \<mapsto> s)\<rparr>)"
    using dispatchEvent_broker [OF assms(1,2), of st] assms(3) by simp
  have gen: "dispatchEvent eventName (Parsed data) st =
           (case js_string (propOf data ''bridge'') of
              Some b \<Rightarrow> st\<lparr>brokerStates := (brokerStates st)(b @ ''/'' @ seg \<mapsto> s)\<rparr>
            | None \<Rightarrow>
                st\<lparr>console := console st @ [''Error handling SSE event ['' @ eventName @ '']:''],
                   toasts := toasts st @ [ToastError (''Error processing '' @ eventName @ '' event'') None]\<rparr>)"
    unfolding d by (simp add: brokerKey_def inst eventFailed_def split: option.splits)
  show ?thesis
    apply (intro conjI allI impI)
    subgoal by (rule gen)
    subgoal using gen by simp
    subgoal using gen by simp
    subgoal using gen by simp
    subgoal using gen by simp
    subgoal using gen by simp
    done
qed

theorem brokerKey_last_plus_segment_witness:
  "brokerStates (dispatchEvent ''broker_connected''
       (Parsed (JObj [(''bridge'', JStr ''b1''), (''instance'', JStr ''a+b+i1'')])) initial) ''b1/i1''
     = Some Broker_connected
   \<and> brokerStates (dispatchEvent ''broker_connected''
       (Parsed (JObj [(''bridge'', JStr ''b1''), (''instance'', JStr ''a+b+i1'')])) initial) ''b1/a+b+i1''
     = None
   \<and> brokerStates (dispatchEvent ''broker_disabled''
       (Parsed (JObj [(''bridge'', JNum ''1e+21''), (''instance'', JStr ''i1'')])) initial) ''1e+21/i1''
     = Some Broker_disabled
   \<and> brokerStates (dispatchEvent ''broker_connecting''
       (Parsed (JObj [(''bridge'', JArr [JStr ''a'', JNull, JArr [JNum ''1'', JBool False]]),
                      (''instance'', JStr ''x+'')])) initial) ''a,,1,false/''
     = Some Broker_connecting
   \<and> brokerStates (dispatchEvent ''broker_connected''
       (Parsed (JObj [(''bridge'', JObj [(''toString'', JNum ''1'')]), (''instance'', JStr ''a+i1'')]))
       initial)
     = Map.empty
   \<and> toasts (dispatchEvent ''broker_connected''
       (Parsed (JObj [(''bridge'', JObj [(''toString'', JNum ''1'')]), (''instance'', JStr ''a+i1'')]))
       initial)
     = [ToastError ''Error processing broker_connected event'' None]"
proof -
  have ev1: "(''broker_connected'', Broker_connected) \<in> set brokerEvents"
    and ev2: "(''broker_disabled'', Broker_disabled) \<in> set brokerEvents"
    and ev3: "(''broker_connecting'', Broker_connecting) \<in> set brokerEvents"
    by (simp_all add: brokerEvents_def)
  have "dispatchEvent ''broker_connecting''
       (Parsed (JObj [(''bridge'', JArr [JStr ''a'', JNull, JArr [JNum ''1'', JBool False]]),
                      (''instance'', JStr ''x+'')])) initial
     = initial\<lparr>brokerStates := (brokerStates initial)(''a,,1,false'' @ ''/'' @ [] \<mapsto> Broker_connecting)\<rparr>"
    using brokerKey_last_plus_segment [OF ev3,
        of "JObj [(''bridge'', JArr [JStr ''a'', JNull, JArr [JNum ''1'', JBool False]]),
                  (''instance'', JStr ''x+'')]" "''x+''" "''x''" "[]" initial]
    by simp
  moreover have "dispatchEvent ''broker_connected''
       (Parsed (JObj [(''bridge'', JStr ''b1''), (''instance'', JStr ''a+b+i1'')])) initial
     = initial\<lparr>brokerStates := (brokerStates initial)(''b1'' @ ''/'' @ ''i1'' \<mapsto> Broker_connected)\<rparr>"
    using brokerKey_last_plus_segment [OF ev1,
        of "JObj [(''bridge'', JStr ''b1''), (''instance'', JStr ''a+b+i1'')]" "''a+b+i1''"
           "''a+b''" "''i1''" initial]
    by simp
  moreover have "dispatchEvent ''broker_disabled''
       (Parsed (JObj [(''bridge'', JNum ''1e+21''), (''instance'', JStr ''i1'')])) initial
     = initial\<lparr>brokerStates := (brokerStates initial)(''1e+21'' @ ''/'' @ ''i1'' \<mapsto> Broker_disabled)\<rparr>"
    using brokerKey_last_plus_segment [OF ev2,
        of "JObj [(''bridge'', JNum ''1e+21''), (''instance'', JStr ''i1'')]" "''i1''"
           "[]" "''i1''" initial]
    by simp
  moreover have "dispatchEvent ''broker_connected''
       (Parsed (JObj [(''bridge'', JObj [(''toString'', JNum ''1'')]), (''instance'', JStr ''a+i1'')]))
       initial
     = initial\<lparr>console := console initial @ [''Error handling SSE event ['' @ ''broker_connected'' @ '']:''],
          toasts := toasts initial
            @ [ToastError (''Error processing '' @ ''broker_connected'' @ '' event'') None]\<rparr>"
    using brokerKey_last_plus_segment [OF ev1,
        of "JObj [(''bridge'', JObj [(''toString'', JNum ''1'')]), (''instance'', JStr ''a+i1'')]"
           "''a+i1''" "''a''" "''i1''" initial]
    by simp
  ultimately show ?thesis by (simp add: initial_def)
qed

text \<open>
  C5. A payload that fails to parse, or that is \<open>null\<close>, is logged and reported to the
  user with an error toast naming the event; nothing else changes, so both status maps,
  the system state and the channel are as before. The same happens, for every event name,
  to a payload whose \<open>bridge\<close> and \<open>instance\<close> are truthy and cannot both be turned into
  the text of a key: the event is logged and reported after the bridge states have been
  updated. Apart from that, a bridge event without a (truthy) \<open>name\<close> and a broker event
  without a (truthy) \<open>bridge\<close> or \<open>instance\<close> are dropped without any trace: the state,
  console and toasts included, is unchanged.
\<close>

theorem malformed_event_handling:
  "(eventName \<in> set events \<and> (p = SyntaxError \<or> p = Parsed JNull) \<longrightarrow>
      dispatchEvent eventName p st =
        st\<lparr>console := console st @ [''Error handling SSE event ['' @ eventName @ '']:''],
           toasts := toasts st @ [ToastError (''Error processing '' @ eventName @ '' event'') None]\<rparr>)
   \<and> (eventName \<in> set events \<and> truthy (propOf data ''bridge'') \<and> truthy (propOf data ''instance'')
        \<and> brokerKey (propOf data ''bridge'') (propOf data ''instance'') = None \<longrightarrow>
        dispatchEvent eventName (Parsed data) st =
          (updateBridgeStates eventName data st)
            \<lparr>console := console (updateBridgeStates eventName data st)
                 @ [''Error handling SSE event ['' @ eventName @ '']:''],
             toasts := toasts (updateBridgeStates eventName data st)
                 @ [ToastError (''Error processing '' @ eventName @ '' event'') None]\<rparr>)
   \<and> (eventName \<in> set bridgeEventNames \<and> data \<noteq> JNull \<and> data \<noteq> JUndefined
        \<and> \<not> truthy (propOf data ''name'') \<longrightarrow>
        dispatchEvent eventName (Parsed data) st =
          (if truthy (propOf data ''bridge'') \<and> truthy (propOf data ''instance'')
              \<and> brokerKey (propOf data ''bridge'') (propOf data ''instance'') = None
           then st\<lparr>console := console st @ [''Error handling SSE event ['' @ eventName @ '']:''],
                   toasts := toasts st
                     @ [ToastError (''Error processing '' @ eventName @ '' event'') None]\<rparr>
           else st))
   \<and> (eventName \<in> set brokerEventNames \<and> data \<noteq> JNull \<and> data \<noteq> JUndefined
        \<and> \<not> (truthy (propOf data ''bridge'') \<and> truthy (propOf data ''instance'')) \<longrightarrow>
        dispatchEvent eventName (Parsed data) st = st)"
proof (intro conjI impI)
  assume "eventName \<in> set events \<and> (p = SyntaxError \<or> p = Parsed JNull)"
  then show "dispatchEvent eventName p st =
        st\<lparr>console := console st @ [''Error handling SSE event ['' @ eventName @ '']:''],
           toasts := toasts st @ [ToastError (''Error processing '' @ eventName @ '' event'') None]\<rparr>"
    by (auto simp: dispatchEvent_def eventListener_def eventFailed_def)
next
  assume a: "eventName \<in> set events \<and> truthy (propOf data ''bridge'') \<and> truthy (propOf data ''instance'')
        \<and> brokerKey (propOf data ''bridge'') (propOf data ''instance'') = None"
  then have nn: "data \<noteq> JNull \<and> data \<noteq> JUndefined"
    using truthy_propOf_defined [of data "''bridge''"] by simp
  have "updateBrokerStates eventName data (updateBridgeStates eventName data st) = None"
    using a by (simp add: updateBrokerStates_def)
  with a nn show "dispatchEvent eventName (Parsed data) st =
          (updateBridgeStates eventName data st)
            \<lparr>console := console (updateBridgeStates eventName data st)
                 @ [''Error handling SSE event ['' @ eventName @ '']:''],
             toasts := toasts (updateBridgeStates eventName data st)
                 @ [ToastError (''Error processing '' @ eventName @ '' event'') None]\<rparr>"
    by (simp add: dispatchEvent_def eventListener_def eventFailed_def)
next
  assume a: "eventName \<in> set bridgeEventNames \<and> data \<noteq> JNull \<and> data \<noteq> JUndefined
        \<and> \<not> truthy (propOf data ''name'')"
  then show "dispatchEvent eventName (Parsed data) st =
          (if truthy (propOf data ''bridge'') \<and> truthy (propOf data ''instance'')
              \<and> brokerKey (propOf data ''bridge'') (propOf data ''instance'') = None
           then st\<lparr>console := console st @ [''Error handling SSE event ['' @ eventName @ '']:''],
                   toasts := toasts st
                     @ [ToastError (''Error processing '' @ eventName @ '' event'') None]\<rparr>
           else st)"
    by (simp add: dispatchEvent_def eventListener_def bridge_in_events updateBridgeStates_falsy
        updateBrokerStates_other updateSystemState_other bridge_not_broker bridge_not_system
        eventFailed_def)
next
  assume "eventName \<in> set brokerEventNames \<and> data \<noteq> JNull \<and> data \<noteq> JUndefined
        \<and> \<not> (truthy (propOf data ''bridge'') \<and> truthy (propOf data ''instance''))"
  then show "dispatchEvent eventName (Parsed data) st = st"
    by (simp add: dispatchEvent_def eventListener_def broker_in_events updateBrokerStates_falsy
        updateBridgeStates_other updateSystemState_other broker_not_bridge broker_not_system)
qed

theorem malformed_event_handling_witness:
  "toasts (dispatchEvent ''broker_connected'' SyntaxError initial)
     = [ToastError ''Error processing broker_connected event'' None]
   \<and> brokerStates (dispatchEvent ''broker_connected'' SyntaxError initial) = brokerStates initial
   \<and> openSources (dispatchEvent ''broker_connected'' SyntaxError initial) = openSources initial
   \<and> dispatchEvent ''bridge_started'' (Parsed (JObj [(''id'', JNum ''7'')])) initial = initial
   \<and> dispatchEvent ''bridge_started''
        (Parsed (JObj [(''bridge'', JObj [(''toString'', JNum ''1'')]), (''instance'', JStr ''i'')])) initial
       = initial\<lparr>console := [''Error handling SSE event [bridge_started]:''],
                 toasts := [ToastError ''Error processing bridge_started event'' None]\<rparr>
   \<and> dispatchEvent ''bridges_stopped''
        (Parsed (JObj [(''bridge'', JObj [(''toString'', JNum ''1'')]), (''instance'', JStr ''i'')])) initial
       = initial\<lparr>console := [''Error handling SSE event [bridges_stopped]:''],
                 toasts := [ToastError ''Error processing bridges_stopped event'' None]\<rparr>
   \<and> dispatchEvent ''broker_connected'' (Parsed (JObj [(''bridge'', JStr ''b1'')])) initial = initial"
proof -
  have "dispatchEvent ''broker_connected'' SyntaxError initial =
        initial\<lparr>console := console initial @ [''Error handling SSE event ['' @ ''broker_connected'' @ '']:''],
           toasts := toasts initial @ [ToastError (''Error processing '' @ ''broker_connected'' @ '' event'') None]\<rparr>"
    using malformed_event_handling [of "''broker_connected''" SyntaxError initial]
    by (simp add: events_def)
  moreover have "dispatchEvent ''bridge_started'' (Parsed (JObj [(''id'', JNum ''7'')])) initial = initial"
    using malformed_event_handling [of "''bridge_started''" _ initial "JObj [(''id'', JNum ''7'')]"]
    by (simp add: bridgeEventNames_def)
  moreover have "dispatchEvent ''bridge_started''
        (Parsed (JObj [(''bridge'', JObj [(''toString'', JNum ''1'')]), (''instance'', JStr ''i'')])) initial
       = initial\<lparr>console := console initial @ [''Error handling SSE event ['' @ ''bridge_started'' @ '']:''],
                 toasts := toasts initial
                   @ [ToastError (''Error processing '' @ ''bridge_started'' @ '' event'') None]\<rparr>"
    using malformed_event_handling [of "''bridge_started''" _ initial
        "JObj [(''bridge'', JObj [(''toString'', JNum ''1'')]), (''instance'', JStr ''i'')]"]
    by (simp add: bridgeEventNames_def brokerKey_def)
  moreover have "dispatchEvent ''bridges_stopped''
        (Parsed (JObj [(''bridge'', JObj [(''toString'', JNum ''1'')]), (''instance'', JStr ''i'')])) initial
       = initial\<lparr>console := console initial @ [''Error handling SSE event ['' @ ''bridges_stopped'' @ '']:''],
                 toasts := toasts initial
                   @ [ToastError (''Error processing '' @ ''bridges_stopped'' @ '' event'') None]\<rparr>"
    using malformed_event_handling [of "''bridges_stopped''" _ initial
        "JObj [(''bridge'', JObj [(''toString'', JNum ''1'')]), (''instance'', JStr ''i'')]"]
    by (simp add: events_def brokerKey_def updateBridgeStates_def)
  moreover have "dispatchEvent ''broker_connected'' (Parsed (JObj [(''bridge'', JStr ''b1'')])) initial = initial"
    using malformed_event_handling [of "''broker_connected''" _ initial "JObj [(''bridge'', JStr ''b1'')]"]
    by (simp add: brokerEventNames_def)
  ultimately show ?thesis by (simp add: initial_def)
qed

text \<open>
  The statement that nothing of a malformed event reaches the user fails: a payload that
  does not parse puts an error toast on the screen.
\<close>

theorem malformed_event_shows_toast:
  "toasts initial = []
   \<and> toasts (dispatchEvent ''broker_connected'' SyntaxError initial)
       = [ToastError ''Error processing broker_connected event'' None]"
  by (simp add: dispatchEvent_def events_def eventListener_def eventFailed_def initial_def)

text \<open>
  A \<open>bridges_started\<close> event whose \<open>at\<close> has no text is logged and reported after the
  system state has been set. A bridge event whose \<open>name\<close> is truthy and has no text is
  not caught by the listener: the updater throws when React runs it.
\<close>

lemma bridges_started_bad_date:
  "dispatchEvent ''bridges_started'' (Parsed (JObj [(''at'', JObj [(''toString'', JNum ''1'')])])) initial
     = initial\<lparr>bridgesSystemState := Some Bridges_started,
               console := [''Error handling SSE event [bridges_started]:''],
               toasts := [ToastError ''Error processing bridges_started event'' None]\<rparr>
   \<and> dispatchEvent ''bridges_started'' (Parsed (JObj [(''at'', JStr ''2024-01-01T00:00:00Z'')])) initial
     = initial\<lparr>bridgesSystemState := Some Bridges_started,
               systemStartTime := Some (StartTime (JObj [(''at'', JStr ''2024-01-01T00:00:00Z'')]) 0)\<rparr>"
  by (simp add: dispatchEvent_def events_def eventListener_def updateBridgeStates_def
      updateBrokerStates_def updateSystemState_def startTime_def eventFailed_def initial_def)

lemma bridge_event_name_without_text:
  "dispatchEvent ''bridge_started'' (Parsed (JObj [(''name'', JObj [(''toString'', JNum ''1'')])])) initial
     = initial\<lparr>renderError := True\<rparr>"
  by (simp add: dispatchEvent_def events_def eventListener_def updateBridgeStates_def
      setBridgeState_def updateBrokerStates_def updateSystemState_def)

section \<open>Properties of the sync client\<close>










text \<open>
  A baseline that lacks a member the cleaning reads is cleaned and compared like any
  other: the member is \<open>undefined\<close> in the cleaned form, and a working document that has
  it gives a replace operation for it.
\<close>

lemma missing_member_is_diffed:
  "cleanBroker (JObj [(''network'', JObj [(''protocol'', JStr ''un'')])])
     = Some (JObj [(''network'',
                    JObj [(''instance_name'', JUndefined), (''protocol'', JStr ''un''),
                          (''encryption'', JUndefined), (''transport'', JUndefined)]),
                   (''mqtt'', JObj []), (''topics'', JUndefined)])
   \<and> patchFor
        (Some (configOf [JObj [(''brokers'', JArr [JObj [(''network'', JObj [(''protocol'', JStr ''un'')])]])]]))
        (configOf [JObj [(''brokers'',
           JArr [JObj [(''network'', JObj [(''protocol'', JStr ''un''), (''encryption'', JStr ''legacy'')])]])]])
     = Some [Replace ''/bridges/0/brokers/0/network/encryption'' (JStr ''legacy'')]
   \<and> cleanConfig (configOf [JNull]) = None
   \<and> cleanConfig (configOf [JObj [(''name'', JStr ''a'')]]) = None
   \<and> cleanConfig (configOf [JObj [(''brokers'', JArr [JObj [(''mqtt'', JObj [])]])]]) = None"
  by code_simp

text \<open>
  C3. Saves are not serialized. Whatever is in flight, a save whose diff against the
  baseline is not empty sends its own request at once and leaves the baseline alone; a
  second save before any response therefore computes its diff against the same baseline,
  and both requests are in flight together, the second carrying every change of its
  working document against that baseline.
\<close>

theorem saves_overlap_on_same_baseline:
  assumes "lastSavedConfigRef st = Some base"
    and "patchFor (Some base) w1 = Some body1" and "patchFor (Some base) w2 = Some body2"
  shows "inFlight (sendPatchToServer w1 st) = inFlight st @ [(body1, w1)]
     \<and> inFlight (sendPatchToServer w2 (sendPatchToServer w1 st))
           = inFlight st @ [(body1, w1), (body2, w2)]
     \<and> lastSavedConfigRef (sendPatchToServer w2 (sendPatchToServer w1 st)) = Some base"
  using assms by (simp add: sendPatchToServer_def)

theorem saves_overlap_on_same_baseline_witness:
  "lastSavedConfigRef loadedSparse = Some (configOf [sparseBridge ''a''])
   \<and> patchFor (Some (configOf [sparseBridge ''a''])) (configOf [sparseBridge ''b''])
       = Some [Replace ''/bridges/0/name'' (JStr ''b'')]
   \<and> patchFor (Some (configOf [sparseBridge ''a''])) (configOf [sparseBridge ''b'', sparseBridge ''c''])
       = Some [Replace ''/bridges/0/name'' (JStr ''b''),
               Add ''/bridges/1''
                 (JObj [(''name'', JStr ''c''),
                        (''brokers'',
                         JArr [JObj [(''network'',
                                      JObj [(''instance_name'', JStr ''i1''), (''protocol'', JStr ''un''),
                                            (''encryption'', JUndefined), (''transport'', JStr ''stream''),
                                            (''un'', JObj [(''path'', JStr ''/run/mqtt'')])]),
                                     (''mqtt'', JObj []), (''topics'', JArr [])]])])]
   \<and> map snd (inFlight (sendPatchToServer (configOf [sparseBridge ''b'', sparseBridge ''c''])
        (sendPatchToServer (configOf [sparseBridge ''b'']) loadedSparse)))
       = [configOf [sparseBridge ''b''], configOf [sparseBridge ''b'', sparseBridge ''c'']]
   \<and> lastSavedConfigRef (sendPatchToServer (configOf [sparseBridge ''b'', sparseBridge ''c''])
        (sendPatchToServer (configOf [sparseBridge ''b'']) loadedSparse))
       = Some (configOf [sparseBridge ''a''])"
proof -
  have base: "lastSavedConfigRef loadedSparse = Some (configOf [sparseBridge ''a''])"
    by (simp add: loadedSparse_def loadConfig_resume_def invalidFormat_def configOf_def
        sparseBridge_def deepClone_def stringify_def)
  have body1: "patchFor (Some (configOf [sparseBridge ''a''])) (configOf [sparseBridge ''b''])
                = Some [Replace ''/bridges/0/name'' (JStr ''b'')]"
    by code_simp
  have body2: "patchFor (Some (configOf [sparseBridge ''a''])) (configOf [sparseBridge ''b'', sparseBridge ''c''])
       = Some [Replace ''/bridges/0/name'' (JStr ''b''),
               Add ''/bridges/1''
                 (JObj [(''name'', JStr ''c''),
                        (''brokers'',
                         JArr [JObj [(''network'',
                                      JObj [(''instance_name'', JStr ''i1''), (''protocol'', JStr ''un''),
                                            (''encryption'', JUndefined), (''transport'', JStr ''stream''),
                                            (''un'', JObj [(''path'', JStr ''/run/mqtt'')])]),
                                     (''mqtt'', JObj []), (''topics'', JArr [])]])])]"
    by code_simp
  have empty: "inFlight loadedSparse = []"
    by (simp add: loadedSparse_def loadConfig_resume_def invalidFormat_def configOf_def
        loadConfig_def initial_def)
  show ?thesis
    using saves_overlap_on_same_baseline [OF base body1 body2] base body1 body2
    by (simp add: empty)
qed

text \<open>
  The statement that at most one request is in flight fails: after a load of the empty
  configuration, two saves in a row leave two requests in flight, both computed against
  the loaded baseline, the second repeating the change of the first.
\<close>

theorem two_requests_in_flight:
  "inFlight (sendPatchToServer (configOf [bridgeNamed ''a'', bridgeNamed ''b''])
      (sendPatchToServer (configOf [bridgeNamed ''a'']) loadedEmpty))
   = [([Add ''/bridges/0'' (cleanBridgeNamed ''a'')], configOf [bridgeNamed ''a'']),
      ([Add ''/bridges/0'' (cleanBridgeNamed ''a''), Add ''/bridges/1'' (cleanBridgeNamed ''b'')],
       configOf [bridgeNamed ''a'', bridgeNamed ''b''])]"
  by code_simp




section \<open>Properties of the live event channel\<close>


















end
